theory Spec2Isabelle
  imports Main "HOL-Library.Sublist"
begin

section \<open>Meta-Layer gateway: data model\<close>

text \<open>
  The gateway of \<^verbatim>\<open>main.py\<close> is a set of FastAPI handlers, each of which makes one
  call to the Tool Warehouse through \<^verbatim>\<open>httpx\<close> and maps what comes back. The
  handlers are embedded as functions of an environment that holds the configured URL,
  the Tool Warehouse (what an outbound call yields) and the behaviour of the libraries
  the handlers call into. A handler returns its Python outcome (a value, or the exception
  that leaves it) together with the list of outbound calls it made.
\<close>

subsection \<open>Strings\<close>

text \<open>
  A \<open>string\<close> is a Python \<^verbatim>\<open>str\<close> that is text, by its UTF-8 bytes: the configured
  URL, a tool name taken from the request path, the text of an upstream body as
  \<^verbatim>\<open>httpx\<close> decodes it, the message of an exception. A \<^verbatim>\<open>str\<close> taken out of a
  decoded JSON body need not be text: the JSON escape of U+D800 without a partner decodes
  to a surrogate code point, which Python cannot encode as UTF-8. \<open>Text s\<close> is a
  \<^verbatim>\<open>str\<close> that is text; \<open>Surrogates cs\<close> is one in which a surrogate code point
  (U+D800 to U+DFFF) occurs, by its code points.
\<close>

datatype pystr = Text string | Surrogates "nat list"

fun is_text :: "pystr \<Rightarrow> bool" where
  "is_text (Text s) = True"
| "is_text (Surrogates cs) = False"

text \<open>
  The f-string \<^verbatim>\<open>f"literal{value}"\<close>; the literals of the source are ASCII, so their
  bytes are their code points.
\<close>

fun prepend :: "string \<Rightarrow> pystr \<Rightarrow> pystr" where
  "prepend p (Text s) = Text (p @ s)"
| "prepend p (Surrogates cs) = Surrogates (map of_char p @ cs)"

subsection \<open>JSON values\<close>

text \<open>
  What \<^verbatim>\<open>response.json()\<close> yields and what a handler hands to FastAPI: Python's
  \<^verbatim>\<open>None\<close>, \<^verbatim>\<open>bool\<close>, \<^verbatim>\<open>int\<close>, \<^verbatim>\<open>float\<close>, \<^verbatim>\<open>str\<close>,
  \<^verbatim>\<open>list\<close> and \<^verbatim>\<open>dict\<close> (its items, in insertion order, each key once). A
  \<^verbatim>\<open>float\<close> is given by its \<^verbatim>\<open>repr\<close>, which determines it: \<^verbatim>\<open>0.5\<close>,
  \<^verbatim>\<open>1e+22\<close>, and \<^verbatim>\<open>inf\<close>, \<^verbatim>\<open>-inf\<close>, \<^verbatim>\<open>nan\<close> for the values that
  \<^verbatim>\<open>json.loads\<close> gives for \<^verbatim>\<open>1e400\<close>, \<^verbatim>\<open>-1e400\<close> and \<^verbatim>\<open>NaN\<close>.
\<close>

datatype jvalue =
    JNull
  | JBool bool
  | JInt int
  | JFloat string
  | JString pystr
  | JArray "jvalue list"
  | JObject "(pystr \<times> jvalue) list"

text \<open>A \<^verbatim>\<open>str\<close> that is text, and a \<^verbatim>\<open>dict\<close> whose keys are text.\<close>

definition jstr :: "string \<Rightarrow> jvalue" where
  "jstr s = JString (Text s)"

definition jdict :: "(string \<times> jvalue) list \<Rightarrow> jvalue" where
  "jdict items = JObject (map (\<lambda>(k, v). (Text k, v)) items)"

subsection \<open>Pydantic models\<close>

text \<open>\<^verbatim>\<open>class ToolExecutionRequest(BaseModel): parameters: Dict[str, Any] = {}\<close>\<close>

record ToolExecutionRequest =
  parameters :: "(pystr \<times> jvalue) list"

text \<open>
  \<^verbatim>\<open>class ToolExecutionResponse(BaseModel)\<close>: \<^verbatim>\<open>success: bool\<close>,
  \<^verbatim>\<open>tool_name: str\<close>, \<^verbatim>\<open>result: Any = None\<close>, \<^verbatim>\<open>error: Optional[str] = None\<close>.
\<close>

record ToolExecutionResponse =
  success :: bool
  tool_name :: pystr
  result :: jvalue
  error :: "pystr option"

subsection \<open>Outbound calls, upstream responses, exceptions\<close>

datatype http_method = GET | POST

text \<open>One call of \<^verbatim>\<open>client.get\<close> or \<^verbatim>\<open>client.post\<close>; the timeout is in seconds.\<close>

record outbound =
  http_method :: http_method
  url :: string
  json_arg :: "jvalue option"
  timeout :: nat

text \<open>The fields of an \<^verbatim>\<open>httpx.Response\<close> that the handlers read.\<close>

record response =
  status_code :: int
  text' :: string

text \<open>
  The exceptions the handlers tell apart, each with what \<^verbatim>\<open>str(e)\<close> gives where it is
  carried by the instance. \<^verbatim>\<open>httpx.TimeoutException\<close> is a subclass of
  \<^verbatim>\<open>httpx.RequestError\<close>: \<open>RequestError\<close> stands for the request errors that are not
  timeouts, and \<open>Exception\<close> for every other subclass of Python's \<^verbatim>\<open>Exception\<close>.
  \<open>HTTPException\<close> is FastAPI's, with its status code and detail.
\<close>

datatype exn =
    TimeoutException string
  | RequestError string
  | HTTPException int string
  | Exception string

subsection \<open>Environment\<close>

text \<open>
  \<open>TOOL_WAREHOUSE_URL\<close> is the module constant. \<open>warehouse\<close> is the upstream state:
  what an outbound call comes back with, a response or the exception raised by the client.
  The other fields are library behaviour the source relies on and does not define:
  \<open>json_loads\<close> is \<^verbatim>\<open>response.json()\<close> as a function of the body text (\<open>Inl\<close> the message
  of the decoding error); \<open>str_HTTPException\<close> is \<^verbatim>\<open>str(e)\<close> of an HTTPException;
  \<open>py_str\<close> is how an f-string formats a value that is not a \<^verbatim>\<open>str\<close>; \<open>coerce_bool\<close> and
  \<open>coerce_str\<close> are pydantic's validation of a \<^verbatim>\<open>bool\<close> and of a \<^verbatim>\<open>str\<close> field;
  \<open>validation_error\<close>, \<open>kwargs_type_error\<close> and \<open>attribute_error\<close> are the messages of
  pydantic's ValidationError, of the TypeError of \<^verbatim>\<open>**\<close> applied to a value that is not a
  mapping and of the AttributeError of \<^verbatim>\<open>.get\<close> on a value that is not a dict;
  \<open>recursion_ok\<close> tells whether FastAPI's encoders, which recurse over a value, get through
  it within the interpreter's recursion limit.
\<close>

record env =
  TOOL_WAREHOUSE_URL :: string
  warehouse :: "outbound \<Rightarrow> exn + response"
  json_loads :: "string \<Rightarrow> string + jvalue"
  str_HTTPException :: "int \<Rightarrow> string \<Rightarrow> string"
  py_str :: "jvalue \<Rightarrow> string"
  coerce_bool :: "jvalue \<Rightarrow> bool option"
  coerce_str :: "jvalue \<Rightarrow> pystr option"
  validation_error :: "(pystr \<times> jvalue) list \<Rightarrow> string"
  kwargs_type_error :: "jvalue \<Rightarrow> string"
  attribute_error :: "jvalue \<Rightarrow> string"
  recursion_ok :: "jvalue \<Rightarrow> bool"

section \<open>Library calls\<close>

text \<open>\<^verbatim>\<open>str(e)\<close>\<close>

definition str_exn :: "env \<Rightarrow> exn \<Rightarrow> string" where
  "str_exn env e =
     (case e of
        TimeoutException m \<Rightarrow> m
      | RequestError m \<Rightarrow> m
      | HTTPException c d \<Rightarrow> str_HTTPException env c d
      | Exception m \<Rightarrow> m)"

text \<open>
  A value inside an f-string: a \<^verbatim>\<open>str\<close> is inserted as it is; what \<^verbatim>\<open>str\<close> makes
  of any other value is text.
\<close>

definition fstring :: "env \<Rightarrow> jvalue \<Rightarrow> pystr" where
  "fstring env v = (case v of JString s \<Rightarrow> s | _ \<Rightarrow> Text (py_str env v))"

text \<open>
  \<^verbatim>\<open>await client.get(url, timeout=t)\<close> and \<^verbatim>\<open>await client.post(url, json=j, timeout=t)\<close>:
  the outcome the Tool Warehouse gives for the call, and the call made.
\<close>

definition client_get :: "env \<Rightarrow> string \<Rightarrow> nat \<Rightarrow> (exn + response) \<times> outbound list" where
  "client_get env u t =
     (let c = \<lparr>http_method = GET, url = u, json_arg = None, timeout = t\<rparr>
      in (warehouse env c, [c]))"

definition client_post :: "env \<Rightarrow> string \<Rightarrow> jvalue \<Rightarrow> nat \<Rightarrow> (exn + response) \<times> outbound list" where
  "client_post env u j t =
     (let c = \<lparr>http_method = POST, url = u, json_arg = Some j, timeout = t\<rparr>
      in (warehouse env c, [c]))"

text \<open>\<^verbatim>\<open>response.json()\<close>: the decoding error is a \<^verbatim>\<open>ValueError\<close>.\<close>

definition response_json :: "env \<Rightarrow> response \<Rightarrow> exn + jvalue" where
  "response_json env r =
     (case json_loads env (text' r) of Inl m \<Rightarrow> Inl (Exception m) | Inr v \<Rightarrow> Inr v)"

text \<open>
  \<^verbatim>\<open>ToolExecutionResponse(**result)\<close>. A \<^verbatim>\<open>result\<close> that is not a dict is a TypeError.
  Of a dict, \<^verbatim>\<open>success\<close> and \<^verbatim>\<open>tool_name\<close> are required and validated as
  \<^verbatim>\<open>bool\<close> and \<^verbatim>\<open>str\<close>, \<^verbatim>\<open>result\<close> is taken as it is and defaults to
  \<^verbatim>\<open>None\<close>, \<^verbatim>\<open>error\<close> is \<^verbatim>\<open>None\<close> or validated as \<^verbatim>\<open>str\<close> and defaults
  to \<^verbatim>\<open>None\<close>; other keys are ignored. A field that fails is a ValidationError.
\<close>

definition optional_str :: "env \<Rightarrow> jvalue option \<Rightarrow> pystr option option" where
  "optional_str env f =
     (case f of
        None \<Rightarrow> Some None
      | Some JNull \<Rightarrow> Some None
      | Some v \<Rightarrow> map_option Some (coerce_str env v))"

definition ToolExecutionResponse_init :: "env \<Rightarrow> jvalue \<Rightarrow> exn + ToolExecutionResponse" where
  "ToolExecutionResponse_init env v =
     (case v of
        JObject kw \<Rightarrow>
          (case (Option.bind (map_of kw (Text ''success'')) (coerce_bool env),
                 Option.bind (map_of kw (Text ''tool_name'')) (coerce_str env),
                 optional_str env (map_of kw (Text ''error''))) of
             (Some s, Some n, Some e) \<Rightarrow>
               Inr \<lparr>success = s, tool_name = n,
                    result = (case map_of kw (Text ''result'') of None \<Rightarrow> JNull | Some x \<Rightarrow> x),
                    error = e\<rparr>
           | _ \<Rightarrow> Inl (Exception (validation_error env kw)))
      | _ \<Rightarrow> Inl (Exception (kwargs_type_error env v)))"

text \<open>\<^verbatim>\<open>d.get(key, default)\<close>; on a value that is not a dict, an AttributeError.\<close>

definition dict_get :: "env \<Rightarrow> jvalue \<Rightarrow> pystr \<Rightarrow> jvalue \<Rightarrow> exn + jvalue" where
  "dict_get env v k d =
     (case v of
        JObject kw \<Rightarrow> Inr (case map_of kw k of None \<Rightarrow> d | Some x \<Rightarrow> x)
      | _ \<Rightarrow> Inl (Exception (attribute_error env v)))"

section \<open>Handlers\<close>

text \<open>\<^verbatim>\<open>@app.get("/")\<close>\<close>

definition root :: "env \<Rightarrow> (exn + jvalue) \<times> outbound list" where
  "root env =
     (Inr (jdict
        [(''service'', jstr ''meta-layer-gateway''),
         (''version'', jstr ''1.0.0''),
         (''status'', jstr ''active''),
         (''endpoints'', jdict
            [(''health'', jstr ''/health''),
             (''discover_tools'', jstr ''/tools''),
             (''execute_tool'', jstr ''/execute/{tool_name}'')]),
         (''connected_to'', jstr (TOOL_WAREHOUSE_URL env))]), [])"

text \<open>\<^verbatim>\<open>@app.get("/health")\<close>: the bare \<^verbatim>\<open>except:\<close> takes every exception.\<close>

definition health_check :: "env \<Rightarrow> (exn + jvalue) \<times> outbound list" where
  "health_check env =
     (let (r, calls) = client_get env (TOOL_WAREHOUSE_URL env @ ''/health'') 5;
          warehouse_healthy =
            (case r of Inl e \<Rightarrow> False | Inr response \<Rightarrow> status_code response = 200)
      in (Inr (jdict
            [(''status'', jstr (if warehouse_healthy then ''healthy'' else ''degraded'')),
             (''service'', jstr ''meta-layer-gateway''),
             (''version'', jstr ''1.0.0''),
             (''tool_warehouse'', jdict
                [(''url'', jstr (TOOL_WAREHOUSE_URL env)),
                 (''status'',
                    jstr (if warehouse_healthy then ''connected'' else ''unreachable''))])]),
          calls))"

text \<open>
  \<^verbatim>\<open>@app.get("/tools")\<close>. The \<^verbatim>\<open>try\<close> block first, then the \<^verbatim>\<open>except\<close> clauses
  in the order of the source, applied to whatever the block raised: also to the
  HTTPException that the block raises itself.
\<close>

definition discover_tools :: "env \<Rightarrow> (exn + jvalue) \<times> outbound list" where
  "discover_tools env =
     (let (r, calls) = client_get env (TOOL_WAREHOUSE_URL env @ ''/tools'') 10;
          block =
            (case r of
               Inl e \<Rightarrow> Inl e
             | Inr response \<Rightarrow>
                 if status_code response = 200 then response_json env response
                 else Inl (HTTPException (status_code response)
                             (''Tool Warehouse returned error: '' @ text' response)))
      in ((case block of
             Inr v \<Rightarrow> Inr v
           | Inl (TimeoutException m) \<Rightarrow>
               Inl (HTTPException 504 ''Tool Warehouse timeout - service may be unavailable'')
           | Inl (RequestError m) \<Rightarrow>
               Inl (HTTPException 503
                      (''Cannot reach Tool Warehouse at '' @ TOOL_WAREHOUSE_URL env @ '': '' @ m))
           | Inl e \<Rightarrow>
               Inl (HTTPException 500 (''Meta-Layer error: '' @ str_exn env e))),
          calls))"

text \<open>\<^verbatim>\<open>@app.get("/registry")\<close>\<close>

definition get_registry :: "env \<Rightarrow> (exn + jvalue) \<times> outbound list" where
  "get_registry env = discover_tools env"

text \<open>\<^verbatim>\<open>@app.post("/execute/{tool_name}", response_model=ToolExecutionResponse)\<close>\<close>

definition execute_tool ::
  "env \<Rightarrow> string \<Rightarrow> ToolExecutionRequest \<Rightarrow> (exn + ToolExecutionResponse) \<times> outbound list" where
  "execute_tool env name request =
     (let (r, calls) =
            client_post env (TOOL_WAREHOUSE_URL env @ ''/execute/'' @ name)
              (jdict [(''parameters'', JObject (parameters request))]) 30;
          block =
            (case r of
               Inl e \<Rightarrow> Inl e
             | Inr response \<Rightarrow>
                 if status_code response = 200 then
                   (case response_json env response of
                      Inl e \<Rightarrow> Inl e
                    | Inr res \<Rightarrow> ToolExecutionResponse_init env res)
                 else
                   (case response_json env response of
                      Inl e \<Rightarrow> Inl e
                    | Inr j \<Rightarrow>
                        (case dict_get env j (Text ''detail'') (jstr (text' response)) of
                           Inl e \<Rightarrow> Inl e
                         | Inr error_detail \<Rightarrow>
                             Inr \<lparr>success = False, tool_name = Text name, result = JNull,
                                  error = Some (prepend ''Tool Warehouse error: ''
                                                  (fstring env error_detail))\<rparr>)))
      in ((case block of
             Inr v \<Rightarrow> Inr v
           | Inl (TimeoutException m) \<Rightarrow>
               Inr \<lparr>success = False, tool_name = Text name, result = JNull,
                    error = Some (Text ''Tool execution timeout - tool may be taking too long'')\<rparr>
           | Inl (RequestError m) \<Rightarrow>
               Inr \<lparr>success = False, tool_name = Text name, result = JNull,
                    error = Some (Text (''Cannot reach Tool Warehouse: '' @ m))\<rparr>
           | Inl e \<Rightarrow>
               Inr \<lparr>success = False, tool_name = Text name, result = JNull,
                    error = Some (Text (''Meta-Layer error: '' @ str_exn env e))\<rparr>),
          calls))"

text \<open>\<^verbatim>\<open>@app.get("/tools/{tool_name}/code")\<close>: a single \<^verbatim>\<open>except Exception\<close>.\<close>

definition get_tool_code :: "env \<Rightarrow> string \<Rightarrow> (exn + jvalue) \<times> outbound list" where
  "get_tool_code env name =
     (let (r, calls) =
            client_get env (TOOL_WAREHOUSE_URL env @ ''/tools/'' @ name @ ''/code'') 10;
          block =
            (case r of
               Inl e \<Rightarrow> Inl e
             | Inr response \<Rightarrow>
                 if status_code response = 200 then
                   Inr (jdict [(''tool_name'', jstr name),
                               (''code'', jstr (text' response))])
                 else Inl (HTTPException (status_code response) (text' response)))
      in ((case block of
             Inr v \<Rightarrow> Inr v
           | Inl e \<Rightarrow>
               Inl (HTTPException 500 (''Error retrieving tool code: '' @ str_exn env e))),
          calls))"

section \<open>The application\<close>

text \<open>
  FastAPI passes what a handler returns through its encoders (a pydantic model through its
  fields) into Starlette's \<^verbatim>\<open>JSONResponse\<close>, which renders it with
  \<^verbatim>\<open>json.dumps(content, ensure_ascii=False, allow_nan=False, ...).encode("utf-8")\<close>.
  That raises on a \<^verbatim>\<open>float\<close> that is infinite or not a number and on a \<^verbatim>\<open>str\<close>,
  also a key, that holds a surrogate.
\<close>

fun json_compliant :: "jvalue \<Rightarrow> bool" where
  "json_compliant (JFloat x) = (x \<noteq> ''inf'' \<and> x \<noteq> ''-inf'' \<and> x \<noteq> ''nan'')"
| "json_compliant (JString s) = is_text s"
| "json_compliant (JArray xs) = list_all json_compliant xs"
| "json_compliant (JObject kw) = list_all (\<lambda>(k, v). is_text k \<and> json_compliant v) kw"
| "json_compliant v = True"

text \<open>
  The encoders recurse over the value, and one nested too deep for the interpreter ends
  them in a RecursionError. The bodies the gateway builds itself are nested two deep; for
  anything deeper the environment decides.
\<close>

fun nesting :: "jvalue \<Rightarrow> nat" where
  "nesting (JArray xs) = Suc (foldr max (map nesting xs) 0)"
| "nesting (JObject kw) = Suc (foldr max (map (\<lambda>(k, v). nesting v) kw) 0)"
| "nesting v = 0"

definition serialisable :: "env \<Rightarrow> jvalue \<Rightarrow> bool" where
  "serialisable env v \<longleftrightarrow> json_compliant v \<and> (nesting v \<le> 2 \<or> recursion_ok env v)"

text \<open>
  A value that serialises is answered with status 200 and the value as JSON body; when
  serialising raises, after the handler has returned, the answer is the server error 500.
  An HTTPException that leaves a handler is answered with its status code and the body
  \<^verbatim>\<open>{"detail": detail}\<close>. Any other exception that leaves a handler is the server
  error 500.
\<close>

record http_response =
  status :: int
  body :: jvalue

definition model_dump :: "ToolExecutionResponse \<Rightarrow> jvalue" where
  "model_dump m =
     jdict [(''success'', JBool (success m)),
            (''tool_name'', JString (tool_name m)),
            (''result'', result m),
            (''error'', (case error m of None \<Rightarrow> JNull | Some e \<Rightarrow> JString e))]"

text \<open>The body of an error response: \<^verbatim>\<open>{"detail": d}\<close>.\<close>

definition detail_body :: "string \<Rightarrow> jvalue" where
  "detail_body d = jdict [(''detail'', jstr d)]"

definition respond :: "env \<Rightarrow> exn + jvalue \<Rightarrow> http_response" where
  "respond env r =
     (case r of
        Inr v \<Rightarrow>
          if serialisable env v then \<lparr>status = 200, body = v\<rparr>
          else \<lparr>status = 500, body = jstr ''Internal Server Error''\<rparr>
      | Inl (HTTPException c d) \<Rightarrow> \<lparr>status = c, body = detail_body d\<rparr>
      | Inl e \<Rightarrow> \<lparr>status = 500, body = jstr ''Internal Server Error''\<rparr>)"

text \<open>The routes of \<^verbatim>\<open>app\<close>; the request of \<open>POST_execute\<close> has passed validation.\<close>

datatype request =
    GET_root
  | GET_health
  | GET_tools
  | GET_registry
  | POST_execute string ToolExecutionRequest
  | GET_tool_code string

definition app :: "env \<Rightarrow> request \<Rightarrow> http_response \<times> outbound list" where
  "app env rq =
     (case rq of
        GET_root \<Rightarrow> map_prod (respond env) id (root env)
      | GET_health \<Rightarrow> map_prod (respond env) id (health_check env)
      | GET_tools \<Rightarrow> map_prod (respond env) id (discover_tools env)
      | GET_registry \<Rightarrow> map_prod (respond env) id (get_registry env)
      | POST_execute name request \<Rightarrow>
          map_prod (respond env \<circ> map_sum id model_dump) id (execute_tool env name request)
      | GET_tool_code name \<Rightarrow> map_prod (respond env) id (get_tool_code env name))"

text \<open>The outbound call a request to \<^verbatim>\<open>/health\<close> makes.\<close>

definition health_call :: "env \<Rightarrow> outbound" where
  "health_call env =
     \<lparr>http_method = GET, url = TOOL_WAREHOUSE_URL env @ ''/health'', json_arg = None,
      timeout = 5\<rparr>"

text \<open>The outbound calls of the other handlers, as the source writes them.\<close>

definition tools_call :: "env \<Rightarrow> outbound" where
  "tools_call env =
     \<lparr>http_method = GET, url = TOOL_WAREHOUSE_URL env @ ''/tools'', json_arg = None,
      timeout = 10\<rparr>"

definition execute_call :: "env \<Rightarrow> string \<Rightarrow> ToolExecutionRequest \<Rightarrow> outbound" where
  "execute_call env name request =
     \<lparr>http_method = POST, url = TOOL_WAREHOUSE_URL env @ ''/execute/'' @ name,
      json_arg = Some (jdict [(''parameters'', JObject (parameters request))]),
      timeout = 30\<rparr>"

definition code_call :: "env \<Rightarrow> string \<Rightarrow> outbound" where
  "code_call env name =
     \<lparr>http_method = GET, url = TOOL_WAREHOUSE_URL env @ ''/tools/'' @ name @ ''/code'',
      json_arg = None, timeout = 10\<rparr>"

section \<open>A concrete environment\<close>

text \<open>
  An environment to run the handlers in: the default URL of the source, a Tool Warehouse
  that gives the same outcome to every call, and the library behaviour of CPython,
  Starlette and pydantic 2 on the values that occur below.
\<close>

subsection \<open>Printing\<close>

text \<open>\<^verbatim>\<open>str\<close> of an \<^verbatim>\<open>int\<close>.\<close>

fun str_nat :: "nat \<Rightarrow> string" where
  "str_nat n =
     (if n < 10 then [''0123456789'' ! n]
      else str_nat (n div 10) @ [''0123456789'' ! (n mod 10)])"

declare str_nat.simps [simp del]

definition str_int :: "int \<Rightarrow> string" where
  "str_int i = (if i < 0 then ''-'' @ str_nat (nat (- i)) else str_nat (nat i))"

text \<open>
  \<^verbatim>\<open>repr\<close> of a \<^verbatim>\<open>str\<close>: in single quotes, or in double quotes when it holds a
  single quote and no double quote; the backslash, the quote in use, newline, carriage
  return, tab and the other ASCII control characters are escaped, and so is a surrogate.
  Code points beyond ASCII are taken as printable.
\<close>

definition hex_digit :: "nat \<Rightarrow> char" where
  "hex_digit n = ''0123456789abcdef'' ! (n mod 16)"

definition escape_char :: "char \<Rightarrow> char \<Rightarrow> string" where
  "escape_char q c =
     (if c = CHR 0x5C then [CHR 0x5C, CHR 0x5C]
      else if c = q then [CHR 0x5C, q]
      else if c = CHR 0x0A then [CHR 0x5C, CHR ''n'']
      else if c = CHR 0x0D then [CHR 0x5C, CHR ''r'']
      else if c = CHR 0x09 then [CHR 0x5C, CHR ''t'']
      else if (of_char c :: nat) < 32 \<or> (of_char c :: nat) = 127 then
        [CHR 0x5C, CHR ''x'', hex_digit (of_char c div 16), hex_digit (of_char c)]
      else [c])"

definition utf8 :: "nat \<Rightarrow> string" where
  "utf8 c =
     (if c < 128 then [char_of c]
      else if c < 2048 then [char_of (192 + c div 64), char_of (128 + c mod 64)]
      else if c < 65536 then
        [char_of (224 + c div 4096), char_of (128 + c div 64 mod 64), char_of (128 + c mod 64)]
      else
        [char_of (240 + c div 262144), char_of (128 + c div 4096 mod 64),
         char_of (128 + c div 64 mod 64), char_of (128 + c mod 64)])"

definition escape_code_point :: "char \<Rightarrow> nat \<Rightarrow> string" where
  "escape_code_point q c =
     (if 55296 \<le> c \<and> c \<le> 57343 then
        [CHR 0x5C, CHR ''u'', hex_digit (c div 4096), hex_digit (c div 256),
         hex_digit (c div 16), hex_digit c]
      else if c < 128 then escape_char q (char_of c)
      else utf8 c)"

definition repr_str :: "pystr \<Rightarrow> string" where
  "repr_str s =
     (case s of
        Text t \<Rightarrow>
          (let q = (if CHR 0x27 \<in> set t \<and> CHR 0x22 \<notin> set t then CHR 0x22 else CHR 0x27)
           in [q] @ concat (map (escape_char q) t) @ [q])
      | Surrogates cs \<Rightarrow>
          (let q = (if 39 \<in> set cs \<and> 34 \<notin> set cs then CHR 0x22 else CHR 0x27)
           in [q] @ concat (map (escape_code_point q) cs) @ [q]))"

text \<open>
  \<^verbatim>\<open>str\<close> of a value that is not a \<^verbatim>\<open>str\<close>, which is its \<^verbatim>\<open>repr\<close>: the items
  of a \<^verbatim>\<open>list\<close> or \<^verbatim>\<open>dict\<close> by their \<^verbatim>\<open>repr\<close>, separated by a comma and a space.
\<close>

fun join :: "string \<Rightarrow> string list \<Rightarrow> string" where
  "join sep [] = []"
| "join sep [x] = x"
| "join sep (x # y # ys) = x @ sep @ join sep (y # ys)"

fun py_repr :: "jvalue \<Rightarrow> string" where
  "py_repr JNull = ''None''"
| "py_repr (JBool b) = (if b then ''True'' else ''False'')"
| "py_repr (JInt i) = str_int i"
| "py_repr (JFloat x) = x"
| "py_repr (JString s) = repr_str s"
| "py_repr (JArray xs) = ''['' @ join '', '' (map py_repr xs) @ '']''"
| "py_repr (JObject kw) =
     ''{'' @ join '', '' (map (\<lambda>(k, v). repr_str k @ '': '' @ py_repr v) kw) @ ''}''"

definition type_name :: "jvalue \<Rightarrow> string" where
  "type_name v =
     (case v of
        JNull \<Rightarrow> ''NoneType''
      | JBool b \<Rightarrow> ''bool''
      | JInt i \<Rightarrow> ''int''
      | JFloat x \<Rightarrow> ''float''
      | JString s \<Rightarrow> ''str''
      | JArray xs \<Rightarrow> ''list''
      | JObject kw \<Rightarrow> ''dict'')"

subsection \<open>Decoding\<close>

text \<open>
  \<^verbatim>\<open>json.loads\<close> on the body texts of the examples; a text outside the table stands for
  one that is not JSON from its first character on, as \<^verbatim>\<open>Service starting\<close>,
  \<^verbatim>\<open>Bad Gateway\<close> and \<^verbatim>\<open><html>\<close> are. In the sixth text the result is the JSON
  escape of the code point U+D800.
\<close>

definition example_loads :: "string \<Rightarrow> string + jvalue" where
  \<open>example_loads s =
     (if s = ''{"tools":["a","b"]}'' then
        Inr (jdict [(''tools'', JArray [jstr ''a'', jstr ''b''])])
      else if s = ''{"detail":"Tool not found"}'' then
        Inr (jdict [(''detail'', jstr ''Tool not found'')])
      else if s = ''{"message":"crashed"}'' then
        Inr (jdict [(''message'', jstr ''crashed'')])
      else if s = ''{"success":true,"tool_name":"foo","result":42}'' then
        Inr (jdict [(''success'', JBool True), (''tool_name'', jstr ''foo''),
                    (''result'', JInt 42)])
      else if s = ''{"tool_name":"foo","result":42}'' then
        Inr (jdict [(''tool_name'', jstr ''foo''), (''result'', JInt 42)])
      else if s = ''{"success":true,"tool_name":"foo","result":"'' @ [CHR 0x5C] @ ''ud800"}'' then
        Inr (jdict [(''success'', JBool True), (''tool_name'', jstr ''foo''),
                    (''result'', JString (Surrogates [55296]))])
      else if s = ''{"tools":NaN}'' then
        Inr (jdict [(''tools'', JFloat ''nan'')])
      else if s = ''null'' then Inr JNull
      else if s = ''[1,2]'' then Inr (JArray [JInt 1, JInt 2])
      else if s = ''{}'' then Inr (jdict [])
      else Inl ''Expecting value: line 1 column 1 (char 0)'')\<close>

subsection \<open>Validation\<close>

text \<open>
  Pydantic's validation of a \<^verbatim>\<open>bool\<close> field takes a \<^verbatim>\<open>bool\<close>, the numbers 0 and
  1 and, whatever the case of their letters, the strings below; that of a \<^verbatim>\<open>str\<close> field
  takes a \<^verbatim>\<open>str\<close>. \<open>example_validation_error\<close> is the first line of the message of the
  ValidationError, which goes on with an entry for each field that failed.
\<close>

definition ascii_lower :: "char \<Rightarrow> char" where
  "ascii_lower c =
     (if 65 \<le> (of_char c :: nat) \<and> (of_char c :: nat) \<le> 90
      then char_of ((of_char c :: nat) + 32) else c)"

definition example_bool :: "jvalue \<Rightarrow> bool option" where
  "example_bool v =
     (case v of
        JBool b \<Rightarrow> Some b
      | JInt i \<Rightarrow> (if i = 0 then Some False else if i = 1 then Some True else None)
      | JFloat x \<Rightarrow>
          (if x = ''0.0'' \<or> x = ''-0.0'' then Some False
           else if x = ''1.0'' then Some True else None)
      | JString (Text s) \<Rightarrow>
          (if map ascii_lower s \<in> set [''0'', ''off'', ''f'', ''false'', ''n'', ''no'']
           then Some False
           else if map ascii_lower s \<in> set [''1'', ''on'', ''t'', ''true'', ''y'', ''yes'']
           then Some True else None)
      | _ \<Rightarrow> None)"

definition example_coerce_str :: "jvalue \<Rightarrow> pystr option" where
  "example_coerce_str v = (case v of JString s \<Rightarrow> Some s | _ \<Rightarrow> None)"

definition example_validation_error :: "(pystr \<times> jvalue) list \<Rightarrow> string" where
  "example_validation_error kw =
     (let n = length (filter (\<lambda>failed. failed)
                [Option.bind (map_of kw (Text ''success'')) example_bool = None,
                 Option.bind (map_of kw (Text ''tool_name'')) example_coerce_str = None,
                 (case map_of kw (Text ''error'') of
                    None \<Rightarrow> False
                  | Some JNull \<Rightarrow> False
                  | Some v \<Rightarrow> example_coerce_str v = None)])
      in str_nat n @ '' validation error'' @ (if n = 1 then [] else ''s'')
         @ '' for ToolExecutionResponse'')"

subsection \<open>The environment\<close>

text \<open>
  Starlette's HTTPException prints as \<^verbatim>\<open>f"{status_code}: {detail}"\<close>; the encoders are
  taken to get through a value nested up to a hundred deep.
\<close>

definition example_env :: "exn + response \<Rightarrow> env" where
  "example_env outcome =
     \<lparr>TOOL_WAREHOUSE_URL = ''http://localhost:8001'',
      warehouse = (\<lambda>c. outcome),
      json_loads = example_loads,
      str_HTTPException = (\<lambda>c d. str_int c @ '': '' @ d),
      py_str = py_repr,
      coerce_bool = example_bool,
      coerce_str = example_coerce_str,
      validation_error = example_validation_error,
      kwargs_type_error =
        (\<lambda>v. ''__main__.ToolExecutionResponse() argument after ** must be a mapping, not ''
              @ type_name v),
      attribute_error =
        (\<lambda>v. [CHR 0x27] @ type_name v @ [CHR 0x27] @ '' object has no attribute ''
              @ [CHR 0x27] @ ''get'' @ [CHR 0x27]),
      recursion_ok = (\<lambda>v. nesting v \<le> 100)\<rparr>"

text \<open>The request body \<^verbatim>\<open>{"parameters": {}}\<close>.\<close>

definition no_parameters :: ToolExecutionRequest where
  "no_parameters = \<lparr>parameters = []\<rparr>"

section \<open>Unfolding the application\<close>

lemma app_simps:
  "app env GET_root = map_prod (respond env) id (root env)"
  "app env GET_health = map_prod (respond env) id (health_check env)"
  "app env GET_tools = map_prod (respond env) id (discover_tools env)"
  "app env GET_registry = map_prod (respond env) id (get_registry env)"
  "app env (POST_execute name request) =
     map_prod (respond env \<circ> map_sum id model_dump) id (execute_tool env name request)"
  "app env (GET_tool_code name) = map_prod (respond env) id (get_tool_code env name)"
  by (simp_all add: app_def)

lemma respond_simps:
  "serialisable env v \<Longrightarrow> respond env (Inr v) = \<lparr>status = 200, body = v\<rparr>"
  "\<not> serialisable env v \<Longrightarrow>
   respond env (Inr v) = \<lparr>status = 500, body = jstr ''Internal Server Error''\<rparr>"
  "respond env (Inl (HTTPException c d)) = \<lparr>status = c, body = detail_body d\<rparr>"
  by (simp_all add: respond_def)

text \<open>The bodies that the gateway builds from text serialise in every environment.\<close>

lemma serialisable_failure:
  "serialisable env
     (model_dump \<lparr>success = b, tool_name = Text n, result = JNull, error = Some (Text m)\<rparr>)"
  by (simp add: serialisable_def model_dump_def jdict_def)

lemma example_env_sel:
  "warehouse (example_env outcome) c = outcome"
  "TOOL_WAREHOUSE_URL (example_env outcome) = ''http://localhost:8001''"
  "json_loads (example_env outcome) = example_loads"
  "recursion_ok (example_env outcome) = (\<lambda>v. nesting v \<le> 100)"
  by (simp_all add: example_env_def)

section \<open>Health\<close>

lemma health_check_eq:
  "health_check env =
     (let h = (case warehouse env (health_call env) of
                 Inl e \<Rightarrow> False | Inr response \<Rightarrow> status_code response = 200)
      in (Inr (jdict
            [(''status'', jstr (if h then ''healthy'' else ''degraded'')),
             (''service'', jstr ''meta-layer-gateway''),
             (''version'', jstr ''1.0.0''),
             (''tool_warehouse'', jdict
                [(''url'', jstr (TOOL_WAREHOUSE_URL env)),
                 (''status'', jstr (if h then ''connected'' else ''unreachable''))])]),
          [health_call env]))"
  by (simp add: health_check_def client_get_def health_call_def Let_def)

lemma healthy_iff:
  "(case warehouse env c of Inl e \<Rightarrow> False | Inr response \<Rightarrow> status_code response = 200)
   \<longleftrightarrow> (\<exists>r. warehouse env c = Inr r \<and> status_code r = 200)"
  by (cases "warehouse env c") auto

lemma serialisable_health:
  "serialisable env
     (jdict [(''status'', jstr a), (''service'', jstr b), (''version'', jstr c),
             (''tool_warehouse'', jdict [(''url'', jstr u), (''status'', jstr d)])])"
  by (simp add: serialisable_def jdict_def jstr_def)

text \<open>
  C4. \<^verbatim>\<open>GET /health\<close> always answers with status 200. The overall status is
  \<^verbatim>\<open>"healthy"\<close> and the Tool Warehouse \<^verbatim>\<open>"connected"\<close> exactly when the call to
  \<^verbatim>\<open>{upstream}/health\<close> came back with a response of status 200; with any other
  status, a timeout, a connection failure or any other exception they are
  \<^verbatim>\<open>"degraded"\<close> and \<^verbatim>\<open>"unreachable"\<close>. The body always holds the configured URL.
\<close>

theorem health_never_fails:
  "fst (app env GET_health) =
     (let connected = (\<exists>r. warehouse env (health_call env) = Inr r \<and> status_code r = 200)
      in \<lparr>status = 200,
          body = jdict
            [(''status'', jstr (if connected then ''healthy'' else ''degraded'')),
             (''service'', jstr ''meta-layer-gateway''),
             (''version'', jstr ''1.0.0''),
             (''tool_warehouse'', jdict
                [(''url'', jstr (TOOL_WAREHOUSE_URL env)),
                 (''status'',
                    jstr (if connected then ''connected'' else ''unreachable''))])]\<rparr>)"
  unfolding app_simps health_check_eq healthy_iff
  by (simp add: Let_def respond_simps serialisable_health)

section \<open>Discovery\<close>

text \<open>
  What \<open>discover_tools\<close> comes to, by outcome of the call. An upstream status other than
  200 ends as status 500: the HTTPException raised for it inside the \<^verbatim>\<open>try\<close> block is
  caught by \<^verbatim>\<open>except Exception\<close>.
\<close>

lemma discover_tools_eq:
  "discover_tools env =
     ((case warehouse env (tools_call env) of
         Inl (TimeoutException m) \<Rightarrow>
           Inl (HTTPException 504 ''Tool Warehouse timeout - service may be unavailable'')
       | Inl (RequestError m) \<Rightarrow>
           Inl (HTTPException 503
                  (''Cannot reach Tool Warehouse at '' @ TOOL_WAREHOUSE_URL env @ '': '' @ m))
       | Inl e \<Rightarrow> Inl (HTTPException 500 (''Meta-Layer error: '' @ str_exn env e))
       | Inr r \<Rightarrow>
           if status_code r = 200 then
             (case json_loads env (text' r) of
                Inl m \<Rightarrow> Inl (HTTPException 500 (''Meta-Layer error: '' @ m))
              | Inr v \<Rightarrow> Inr v)
           else Inl (HTTPException 500
                  (''Meta-Layer error: '' @ str_HTTPException env (status_code r)
                     (''Tool Warehouse returned error: '' @ text' r)))),
      [tools_call env])"
  by (simp add: discover_tools_def client_get_def tools_call_def Let_def response_json_def
      str_exn_def split: sum.split exn.split)

lemma discover_tools_non_200:
  "warehouse env (tools_call env) = Inr r \<Longrightarrow> status_code r \<noteq> 200 \<Longrightarrow>
   fst (app env GET_tools) =
     \<lparr>status = 500,
      body = detail_body
        (''Meta-Layer error: '' @ str_HTTPException env (status_code r)
           (''Tool Warehouse returned error: '' @ text' r))\<rparr>"
  by (simp add: app_simps discover_tools_eq respond_simps)

text \<open>
  C1. The claim: an upstream response to \<^verbatim>\<open>GET /tools\<close> with a status other than 200
  is answered with that status and a detail that embeds the upstream's body. The code, on
  an upstream 404 with body \<^verbatim>\<open>Not Found\<close>, answers with status 500.
\<close>

theorem tools_404_becomes_500:
  "fst (app (example_env (Inr \<lparr>status_code = 404, text' = ''Not Found''\<rparr>)) GET_tools)
     = \<lparr>status = 500,
        body = detail_body
          ''Meta-Layer error: 404: Tool Warehouse returned error: Not Found''\<rparr>"
  by (simp add: app_simps discover_tools_eq respond_simps example_env_def str_int_def
      str_nat.simps)




text \<open>
  C7. When the call of \<^verbatim>\<open>GET /tools\<close> ends in an exception rather than a response: a
  timeout is answered with status 504 and a message that the service may be unavailable, a
  request error with status 503 and a message naming the configured URL, any other
  exception with status 500 and the exception's message.
\<close>

theorem discover_tools_failure_classes:
  "warehouse env (tools_call env) = Inl e \<Longrightarrow>
   fst (app env GET_tools) =
     (case e of
        TimeoutException m \<Rightarrow>
          \<lparr>status = 504,
           body = detail_body ''Tool Warehouse timeout - service may be unavailable''\<rparr>
      | RequestError m \<Rightarrow>
          \<lparr>status = 503,
           body = detail_body
             (''Cannot reach Tool Warehouse at '' @ TOOL_WAREHOUSE_URL env @ '': '' @ m)\<rparr>
      | _ \<Rightarrow>
          \<lparr>status = 500, body = detail_body (''Meta-Layer error: '' @ str_exn env e)\<rparr>)"
  by (cases e) (simp_all add: app_simps discover_tools_eq respond_simps)

theorem discover_tools_failure_classes_witness:
  "fst (app (example_env (Inl (TimeoutException ''timed out''))) GET_tools) =
     \<lparr>status = 504,
      body = detail_body ''Tool Warehouse timeout - service may be unavailable''\<rparr> \<and>
   fst (app (example_env (Inl (RequestError ''All connection attempts failed''))) GET_tools) =
     \<lparr>status = 503,
      body = detail_body
        ''Cannot reach Tool Warehouse at http://localhost:8001: All connection attempts failed''\<rparr> \<and>
   fst (app (example_env (Inl (Exception ''Invalid port''))) GET_tools) =
     \<lparr>status = 500, body = detail_body ''Meta-Layer error: Invalid port''\<rparr>"
  using discover_tools_failure_classes
          [of "example_env (Inl (TimeoutException ''timed out''))" "TimeoutException ''timed out''"]
        discover_tools_failure_classes
          [of "example_env (Inl (RequestError ''All connection attempts failed''))"
              "RequestError ''All connection attempts failed''"]
        discover_tools_failure_classes
          [of "example_env (Inl (Exception ''Invalid port''))" "Exception ''Invalid port''"]
  by (simp add: example_env_sel str_exn_def)

text \<open>
  C8. Against the same Tool Warehouse, \<^verbatim>\<open>GET /registry\<close> and \<^verbatim>\<open>GET /tools\<close> give the
  same response, status and body, and make the same outbound call.
\<close>

theorem registry_is_tools: "app env GET_registry = app env GET_tools"
  by (simp add: app_simps get_registry_def)

section \<open>Tool code\<close>

lemma get_tool_code_eq:
  "get_tool_code env name =
     ((case warehouse env (code_call env name) of
         Inl e \<Rightarrow> Inl (HTTPException 500 (''Error retrieving tool code: '' @ str_exn env e))
       | Inr r \<Rightarrow>
           if status_code r = 200 then
             Inr (jdict [(''tool_name'', jstr name), (''code'', jstr (text' r))])
           else Inl (HTTPException 500
                  (''Error retrieving tool code: ''
                     @ str_HTTPException env (status_code r) (text' r)))),
      [code_call env name])"
  by (simp add: get_tool_code_def client_get_def code_call_def Let_def str_exn_def
      split: sum.split)

text \<open>The parts of C3 that the code keeps: an upstream 200, and a failed call.\<close>

lemma get_tool_code_200:
  "warehouse env (code_call env name) = Inr r \<Longrightarrow> status_code r = 200 \<Longrightarrow>
   fst (app env (GET_tool_code name)) =
     \<lparr>status = 200,
      body = jdict [(''tool_name'', jstr name), (''code'', jstr (text' r))]\<rparr>"
  by (simp add: app_simps get_tool_code_eq respond_def serialisable_def jdict_def jstr_def)

lemma get_tool_code_failed:
  "warehouse env (code_call env name) = Inl e \<Longrightarrow>
   fst (app env (GET_tool_code name)) =
     \<lparr>status = 500, body = detail_body (''Error retrieving tool code: '' @ str_exn env e)\<rparr>"
  by (simp add: app_simps get_tool_code_eq respond_simps)

lemma get_tool_code_non_200:
  "warehouse env (code_call env name) = Inr r \<Longrightarrow> status_code r \<noteq> 200 \<Longrightarrow>
   fst (app env (GET_tool_code name)) =
     \<lparr>status = 500,
      body = detail_body
        (''Error retrieving tool code: '' @ str_HTTPException env (status_code r) (text' r))\<rparr>"
  by (simp add: app_simps get_tool_code_eq respond_simps)

text \<open>
  C3. The claim: an upstream response to \<^verbatim>\<open>GET /tools/{toolName}/code\<close> with a status
  other than 200 is answered with that status and the upstream's body text. The code, on an
  upstream 404 with body \<^verbatim>\<open>Tool not found\<close>, answers with status 500: the
  HTTPException raised for it is caught by \<^verbatim>\<open>except Exception\<close>.
\<close>

theorem tool_code_404_becomes_500:
  "fst (app (example_env (Inr \<lparr>status_code = 404, text' = ''Tool not found''\<rparr>))
          (GET_tool_code ''foo''))
     = \<lparr>status = 500,
        body = detail_body ''Error retrieving tool code: 404: Tool not found''\<rparr>"
  by (simp add: app_simps get_tool_code_eq respond_simps example_env_def str_int_def
      str_nat.simps)

section \<open>Execution\<close>

lemma ToolExecutionResponse_init_error:
  "ToolExecutionResponse_init env v = Inl e \<Longrightarrow>
   (\<exists>kw. v = JObject kw \<and> e = Exception (validation_error env kw)) \<or>
   ((\<forall>kw. v \<noteq> JObject kw) \<and> e = Exception (kwargs_type_error env v))"
  by (cases v) (auto simp: ToolExecutionResponse_init_def split: option.splits)

lemma execute_tool_calls:
  "snd (execute_tool env name request) = [execute_call env name request]"
  by (simp add: execute_tool_def client_post_def execute_call_def Let_def)

text \<open>What \<open>execute_tool\<close> returns, by outcome of the call.\<close>

lemma execute_tool_failed:
  "warehouse env (execute_call env name request) = Inl e \<Longrightarrow>
   fst (execute_tool env name request) =
     Inr \<lparr>success = False, tool_name = Text name, result = JNull,
          error = Some (Text (case e of
                          TimeoutException m \<Rightarrow>
                            ''Tool execution timeout - tool may be taking too long''
                        | RequestError m \<Rightarrow> ''Cannot reach Tool Warehouse: '' @ m
                        | _ \<Rightarrow> ''Meta-Layer error: '' @ str_exn env e))\<rparr>"
  by (cases e) (simp_all add: execute_tool_def client_post_def execute_call_def Let_def)

lemma execute_tool_not_json:
  "warehouse env (execute_call env name request) = Inr r \<Longrightarrow>
   json_loads env (text' r) = Inl m \<Longrightarrow>
   fst (execute_tool env name request) =
     Inr \<lparr>success = False, tool_name = Text name, result = JNull,
          error = Some (Text (''Meta-Layer error: '' @ m))\<rparr>"
  by (simp add: execute_tool_def client_post_def execute_call_def Let_def response_json_def
      str_exn_def)

lemma execute_tool_200_valid:
  "warehouse env (execute_call env name request) = Inr r \<Longrightarrow> status_code r = 200 \<Longrightarrow>
   json_loads env (text' r) = Inr j \<Longrightarrow> ToolExecutionResponse_init env j = Inr x \<Longrightarrow>
   fst (execute_tool env name request) = Inr x"
  by (simp add: execute_tool_def client_post_def execute_call_def Let_def response_json_def)

lemma execute_tool_200_invalid:
  "warehouse env (execute_call env name request) = Inr r \<Longrightarrow> status_code r = 200 \<Longrightarrow>
   json_loads env (text' r) = Inr j \<Longrightarrow> ToolExecutionResponse_init env j = Inl (Exception m) \<Longrightarrow>
   fst (execute_tool env name request) =
     Inr \<lparr>success = False, tool_name = Text name, result = JNull,
          error = Some (Text (''Meta-Layer error: '' @ m))\<rparr>"
  by (simp add: execute_tool_def client_post_def execute_call_def Let_def response_json_def
      str_exn_def)

lemma execute_tool_non_200_object:
  "warehouse env (execute_call env name request) = Inr r \<Longrightarrow> status_code r \<noteq> 200 \<Longrightarrow>
   json_loads env (text' r) = Inr (JObject kw) \<Longrightarrow>
   fst (execute_tool env name request) =
     Inr \<lparr>success = False, tool_name = Text name, result = JNull,
          error = Some (prepend ''Tool Warehouse error: ''
                          (case map_of kw (Text ''detail'') of
                             None \<Rightarrow> Text (text' r)
                           | Some d \<Rightarrow> fstring env d))\<rparr>"
  by (simp add: execute_tool_def client_post_def execute_call_def Let_def response_json_def
      dict_get_def fstring_def jstr_def split: option.split)

lemma execute_tool_non_200_other:
  "warehouse env (execute_call env name request) = Inr r \<Longrightarrow> status_code r \<noteq> 200 \<Longrightarrow>
   json_loads env (text' r) = Inr j \<Longrightarrow> \<forall>kw. j \<noteq> JObject kw \<Longrightarrow>
   fst (execute_tool env name request) =
     Inr \<lparr>success = False, tool_name = Text name, result = JNull,
          error = Some (Text (''Meta-Layer error: '' @ attribute_error env j))\<rparr>"
  by (cases j)
     (simp_all add: execute_tool_def client_post_def execute_call_def Let_def response_json_def
        dict_get_def str_exn_def)

lemma app_execute:
  "fst (execute_tool env name request) = Inr r \<Longrightarrow>
   fst (app env (POST_execute name request)) = respond env (Inr (model_dump r))"
  by (cases "execute_tool env name request") (simp add: app_simps)

text \<open>Every path of \<open>execute_tool\<close> returns; none raises.\<close>

lemma execute_tool_returns: "\<exists>r. fst (execute_tool env name request) = Inr r"
proof (cases "warehouse env (execute_call env name request)")
  case (Inl e)
  then show ?thesis by (simp add: execute_tool_failed)
next
  case (Inr r)
  show ?thesis
  proof (cases "json_loads env (text' r)")
    case (Inl m)
    with Inr show ?thesis by (simp add: execute_tool_not_json)
  next
    case j: (Inr j)
    show ?thesis
    proof (cases "status_code r = 200")
      case True
      show ?thesis
      proof (cases "ToolExecutionResponse_init env j")
        case (Inl e)
        then obtain m where "e = Exception m"
          by (auto dest: ToolExecutionResponse_init_error)
        with Inl Inr j True show ?thesis by (simp add: execute_tool_200_invalid)
      next
        case x: (Inr x)
        with Inr j True show ?thesis by (simp add: execute_tool_200_valid)
      qed
    next
      case False
      show ?thesis
      proof (cases "\<exists>kw. j = JObject kw")
        case True
        with Inr j False show ?thesis by (auto simp: execute_tool_non_200_object)
      next
        case no: False
        with Inr j False show ?thesis by (simp add: execute_tool_non_200_other)
      qed
    qed
  qed
qed

lemma execute_tool_success_only:
  assumes r: "fst (execute_tool env name request) = Inr r" and s: "success r"
  shows "\<exists>resp v. warehouse env (execute_call env name request) = Inr resp \<and>
           status_code resp = 200 \<and> json_loads env (text' resp) = Inr v \<and>
           ToolExecutionResponse_init env v = Inr r"
proof (cases "warehouse env (execute_call env name request)")
  case (Inl e)
  with r s show ?thesis by (auto simp: execute_tool_failed)
next
  case (Inr resp)
  show ?thesis
  proof (cases "json_loads env (text' resp)")
    case (Inl m)
    with Inr r s show ?thesis by (auto simp: execute_tool_not_json)
  next
    case j: (Inr j)
    show ?thesis
    proof (cases "status_code resp = 200")
      case True
      show ?thesis
      proof (cases "ToolExecutionResponse_init env j")
        case (Inl e)
        then obtain m where "e = Exception m"
          by (auto dest: ToolExecutionResponse_init_error)
        with Inl Inr j True r s show ?thesis by (auto simp: execute_tool_200_invalid)
      next
        case x: (Inr x)
        with Inr j True r have "x = r" by (simp add: execute_tool_200_valid)
        with Inr j True x show ?thesis by simp
      qed
    next
      case False
      show ?thesis
      proof (cases "\<exists>kw. j = JObject kw")
        case True
        with Inr j False r s show ?thesis by (auto simp: execute_tool_non_200_object)
      next
        case no: False
        with Inr j False r s show ?thesis by (auto simp: execute_tool_non_200_other)
      qed
    qed
  qed
qed

text \<open>A call that raised is answered with status 200 and the failure.\<close>

lemma execute_failed_200:
  assumes "warehouse env (execute_call env name request) = Inl e"
    and "fst (execute_tool env name request) = Inr r"
  shows "fst (app env (POST_execute name request)) = \<lparr>status = 200, body = model_dump r\<rparr>"
proof -
  from assms have "serialisable env (model_dump r)"
    by (auto simp: execute_tool_failed serialisable_failure)
  with app_execute [OF assms(2)] show ?thesis
    by (simp add: respond_simps)
qed

text \<open>The example bodies, decoded and validated.\<close>

lemma example_init_ok:
  "ToolExecutionResponse_init (example_env outcome)
     (jdict [(''success'', JBool True), (''tool_name'', jstr ''foo''), (''result'', JInt 42)])
   = Inr \<lparr>success = True, tool_name = Text ''foo'', result = JInt 42, error = None\<rparr>"
  by (simp add: ToolExecutionResponse_init_def optional_str_def example_env_def jdict_def
      jstr_def example_bool_def example_coerce_str_def)

lemma example_init_surrogate:
  "ToolExecutionResponse_init (example_env outcome)
     (jdict [(''success'', JBool True), (''tool_name'', jstr ''foo''),
             (''result'', JString (Surrogates [55296]))])
   = Inr \<lparr>success = True, tool_name = Text ''foo'', result = JString (Surrogates [55296]),
          error = None\<rparr>"
  by (simp add: ToolExecutionResponse_init_def optional_str_def example_env_def jdict_def
      jstr_def example_bool_def example_coerce_str_def)

lemma example_init_missing:
  "ToolExecutionResponse_init (example_env outcome)
     (jdict [(''tool_name'', jstr ''foo''), (''result'', JInt 42)])
   = Inl (Exception ''1 validation error for ToolExecutionResponse'')"
  by (simp add: ToolExecutionResponse_init_def optional_str_def example_env_def jdict_def
      jstr_def example_bool_def example_coerce_str_def example_validation_error_def
      str_nat.simps)

lemma example_loads_simps:
  \<open>example_loads ''{"success":true,"tool_name":"foo","result":42}'' =
     Inr (jdict [(''success'', JBool True), (''tool_name'', jstr ''foo''),
                 (''result'', JInt 42)])\<close>
  \<open>example_loads ''{"tool_name":"foo","result":42}'' =
     Inr (jdict [(''tool_name'', jstr ''foo''), (''result'', JInt 42)])\<close>
  \<open>example_loads ''{"detail":"Tool not found"}'' =
     Inr (jdict [(''detail'', jstr ''Tool not found'')])\<close>
  \<open>example_loads ''{"message":"crashed"}'' =
     Inr (jdict [(''message'', jstr ''crashed'')])\<close>
  \<open>example_loads ''Bad Gateway'' = Inl ''Expecting value: line 1 column 1 (char 0)''\<close>
  \<open>example_loads ''<html>'' = Inl ''Expecting value: line 1 column 1 (char 0)''\<close>
  by (simp_all add: example_loads_def)

text \<open>
  C2, as amended. For every valid request to \<^verbatim>\<open>POST /execute/{toolName}\<close> and every
  outcome of the outbound call, the handler returns a ToolExecutionResponse and does not
  raise, and the gateway answers with status 200 and that response as body whenever the
  response serialises as JSON; it does so for every call that raised (timeout, connection
  failure, any other exception). The \<open>success\<close> of the response is false when the call
  raised and when the upstream status is not 200; it is true only when the upstream status
  is 200 and the body decodes and validates as the ToolExecutionResponse that is returned.
\<close>

theorem execute_returns_response:
  "\<exists>r. fst (execute_tool env name request) = Inr r \<and>
       (serialisable env (model_dump r) \<longrightarrow>
          fst (app env (POST_execute name request)) = \<lparr>status = 200, body = model_dump r\<rparr>) \<and>
       (\<forall>e. warehouse env (execute_call env name request) = Inl e \<longrightarrow>
          \<not> success r \<and>
          fst (app env (POST_execute name request)) = \<lparr>status = 200, body = model_dump r\<rparr>) \<and>
       (\<forall>resp. warehouse env (execute_call env name request) = Inr resp \<longrightarrow>
          status_code resp \<noteq> 200 \<longrightarrow> \<not> success r) \<and>
       (success r \<longrightarrow>
          (\<exists>resp v. warehouse env (execute_call env name request) = Inr resp \<and>
             status_code resp = 200 \<and> json_loads env (text' resp) = Inr v \<and>
             ToolExecutionResponse_init env v = Inr r))"
proof -
  obtain r where r: "fst (execute_tool env name request) = Inr r"
    using execute_tool_returns by blast
  note only = execute_tool_success_only [OF r]
  have "\<not> success r" if "warehouse env (execute_call env name request) = Inl e" for e
  proof
    assume "success r"
    from only [OF this] that show False by auto
  qed
  moreover have "\<not> success r"
    if "warehouse env (execute_call env name request) = Inr resp" "status_code resp \<noteq> 200"
    for resp
  proof
    assume "success r"
    from only [OF this] that show False by auto
  qed
  moreover have "fst (app env (POST_execute name request)) = \<lparr>status = 200, body = model_dump r\<rparr>"
    if "serialisable env (model_dump r)"
    using app_execute [OF r] that by (simp add: respond_simps)
  moreover have "fst (app env (POST_execute name request)) = \<lparr>status = 200, body = model_dump r\<rparr>"
    if "warehouse env (execute_call env name request) = Inl e" for e
    using execute_failed_200 [OF that r] .
  ultimately show ?thesis
    using r only by blast
qed

theorem execute_returns_response_witness:
  \<open>fst (app (example_env (Inr \<lparr>status_code = 200,
             text' = ''{"success":true,"tool_name":"foo","result":42}''\<rparr>))
          (POST_execute ''foo'' no_parameters))
     = \<lparr>status = 200,
        body = jdict [(''success'', JBool True), (''tool_name'', jstr ''foo''),
                      (''result'', JInt 42), (''error'', JNull)]\<rparr> \<and>
   fst (app (example_env (Inl (RequestError ''All connection attempts failed'')))
          (POST_execute ''foo'' no_parameters))
     = \<lparr>status = 200,
        body = jdict [(''success'', JBool False), (''tool_name'', jstr ''foo''),
                      (''result'', JNull),
                      (''error'', jstr
                         ''Cannot reach Tool Warehouse: All connection attempts failed'')]\<rparr>\<close>
proof -
  let ?ok = \<open>example_env (Inr \<lparr>status_code = 200,
                 text' = ''{"success":true,"tool_name":"foo","result":42}''\<rparr>)\<close>
  let ?down = \<open>example_env (Inl (RequestError ''All connection attempts failed''))\<close>
  have ok: "fst (execute_tool ?ok ''foo'' no_parameters)
              = Inr \<lparr>success = True, tool_name = Text ''foo'', result = JInt 42, error = None\<rparr>"
    by (rule execute_tool_200_valid [where r = \<open>\<lparr>status_code = 200,
                 text' = ''{"success":true,"tool_name":"foo","result":42}''\<rparr>\<close>
          and j = "jdict [(''success'', JBool True), (''tool_name'', jstr ''foo''),
                          (''result'', JInt 42)]"])
       (simp_all add: example_env_sel example_loads_simps example_init_ok)
  have down: "fst (execute_tool ?down ''foo'' no_parameters)
              = Inr \<lparr>success = False, tool_name = Text ''foo'', result = JNull,
                     error = Some (Text
                       ''Cannot reach Tool Warehouse: All connection attempts failed'')\<rparr>"
    using execute_tool_failed [of ?down "''foo''" no_parameters
            "RequestError ''All connection attempts failed''"]
    by (simp add: example_env_sel)
  have ser: "serialisable ?ok
     (model_dump \<lparr>success = True, tool_name = Text ''foo'', result = JInt 42, error = None\<rparr>)"
    by (simp add: serialisable_def model_dump_def jdict_def)
  from execute_returns_response [of ?ok "''foo''" no_parameters]
       execute_returns_response [of ?down "''foo''" no_parameters]
  show ?thesis
    unfolding ok down using ser
    by (auto simp: model_dump_def jstr_def example_env_sel)
qed

text \<open>
  C2 as stated fails: an upstream 200 whose result holds the JSON escape of a lone
  surrogate decodes and validates, the handler returns it, and serialising the response
  raises after the handler; the gateway answers with status 500.
\<close>

theorem execute_surrogate_result_counterexample:
  \<open>fst (execute_tool
          (example_env (Inr \<lparr>status_code = 200,
             text' = ''{"success":true,"tool_name":"foo","result":"'' @ [CHR 0x5C]
                     @ ''ud800"}''\<rparr>))
          ''foo'' no_parameters)
     = Inr \<lparr>success = True, tool_name = Text ''foo'', result = JString (Surrogates [55296]),
            error = None\<rparr> \<and>
   status (fst (app
          (example_env (Inr \<lparr>status_code = 200,
             text' = ''{"success":true,"tool_name":"foo","result":"'' @ [CHR 0x5C]
                     @ ''ud800"}''\<rparr>))
          (POST_execute ''foo'' no_parameters))) = 500\<close>
proof -
  let ?env = \<open>example_env (Inr \<lparr>status_code = 200,
             text' = ''{"success":true,"tool_name":"foo","result":"'' @ [CHR 0x5C]
                     @ ''ud800"}''\<rparr>)\<close>
  have r: "fst (execute_tool ?env ''foo'' no_parameters)
     = Inr \<lparr>success = True, tool_name = Text ''foo'', result = JString (Surrogates [55296]),
            error = None\<rparr>"
    by (rule execute_tool_200_valid [where r = \<open>\<lparr>status_code = 200,
             text' = ''{"success":true,"tool_name":"foo","result":"'' @ [CHR 0x5C]
                     @ ''ud800"}''\<rparr>\<close>
          and j = "jdict [(''success'', JBool True), (''tool_name'', jstr ''foo''),
                          (''result'', JString (Surrogates [55296]))]"])
       (simp_all add: example_env_sel example_loads_def example_init_surrogate)
  have "\<not> serialisable ?env
     (model_dump \<lparr>success = True, tool_name = Text ''foo'',
                  result = JString (Surrogates [55296]), error = None\<rparr>)"
    by (simp add: serialisable_def model_dump_def jdict_def)
  with app_execute [OF r] r show ?thesis
    by (simp add: respond_simps)
qed

text \<open>
  C10. When the upstream answers \<^verbatim>\<open>POST /execute/{toolName}\<close> with status 200 and a
  body that is not JSON, or that is JSON and fails as a ToolExecutionResponse, with
  message \<open>m\<close>, the handler does not raise: the gateway answers with status 200,
  \<open>success\<close> false, the tool name of the path and the error \<^verbatim>\<open>Meta-Layer error: \<close>
  followed by \<open>m\<close>.
\<close>

theorem execute_200_malformed:
  "warehouse env (execute_call env name request) = Inr resp \<Longrightarrow> status_code resp = 200 \<Longrightarrow>
   json_loads env (text' resp) = Inl m \<or>
   (\<exists>v. json_loads env (text' resp) = Inr v \<and>
        ToolExecutionResponse_init env v = Inl (Exception m)) \<Longrightarrow>
   fst (execute_tool env name request) =
     Inr \<lparr>success = False, tool_name = Text name, result = JNull,
          error = Some (Text (''Meta-Layer error: '' @ m))\<rparr> \<and>
   fst (app env (POST_execute name request)) =
     \<lparr>status = 200,
      body = jdict [(''success'', JBool False), (''tool_name'', jstr name),
                    (''result'', JNull),
                    (''error'', jstr (''Meta-Layer error: '' @ m))]\<rparr>"
proof -
  assume a: "warehouse env (execute_call env name request) = Inr resp" "status_code resp = 200"
    and b: "json_loads env (text' resp) = Inl m \<or>
            (\<exists>v. json_loads env (text' resp) = Inr v \<and>
                 ToolExecutionResponse_init env v = Inl (Exception m))"
  from a b have r: "fst (execute_tool env name request) =
     Inr \<lparr>success = False, tool_name = Text name, result = JNull,
          error = Some (Text (''Meta-Layer error: '' @ m))\<rparr>"
    by (auto simp: execute_tool_not_json execute_tool_200_invalid)
  from app_execute [OF r] r show ?thesis
    by (simp add: respond_simps serialisable_failure) (simp add: model_dump_def jstr_def)
qed

text \<open>
  The failures of \<open>ToolExecutionResponse_init\<close> are all of the form \<open>Exception m\<close>
  (\<open>ToolExecutionResponse_init_error\<close>), so the theorem covers every malformed body.
\<close>

theorem execute_200_malformed_witness:
  \<open>fst (app (example_env (Inr \<lparr>status_code = 200, text' = ''<html>''\<rparr>))
          (POST_execute ''foo'' no_parameters))
     = \<lparr>status = 200,
        body = jdict [(''success'', JBool False), (''tool_name'', jstr ''foo''),
                      (''result'', JNull),
                      (''error'', jstr
                         ''Meta-Layer error: Expecting value: line 1 column 1 (char 0)'')]\<rparr> \<and>
   fst (app (example_env (Inr \<lparr>status_code = 200,
                                text' = ''{"tool_name":"foo","result":42}''\<rparr>))
          (POST_execute ''foo'' no_parameters))
     = \<lparr>status = 200,
        body = jdict [(''success'', JBool False), (''tool_name'', jstr ''foo''),
                      (''result'', JNull),
                      (''error'', jstr
                         ''Meta-Layer error: 1 validation error for ToolExecutionResponse'')]\<rparr>\<close>
  using execute_200_malformed
          [of \<open>example_env (Inr \<lparr>status_code = 200, text' = ''<html>''\<rparr>)\<close> "''foo''"
              no_parameters \<open>\<lparr>status_code = 200, text' = ''<html>''\<rparr>\<close>
              "''Expecting value: line 1 column 1 (char 0)''"]
        execute_200_malformed
          [of \<open>example_env (Inr \<lparr>status_code = 200,
                                text' = ''{"tool_name":"foo","result":42}''\<rparr>)\<close> "''foo''"
              no_parameters
              \<open>\<lparr>status_code = 200, text' = ''{"tool_name":"foo","result":42}''\<rparr>\<close>
              "''1 validation error for ToolExecutionResponse''"]
  by (simp add: example_env_sel example_loads_simps example_init_missing)

text \<open>
  C5, as amended. For every upstream response to \<^verbatim>\<open>POST /execute/{toolName}\<close> with
  a status other than 200, the returned ToolExecutionResponse has \<open>success\<close> false and
  the tool name of the path; when the upstream body decodes as a JSON object, its error is
  \<^verbatim>\<open>Tool Warehouse error: \<close> followed by the object's \<^verbatim>\<open>detail\<close> if it has one,
  else by the upstream's raw body text.
\<close>

theorem execute_non_200:
  "warehouse env (execute_call env name request) = Inr resp \<Longrightarrow> status_code resp \<noteq> 200 \<Longrightarrow>
   \<exists>r. fst (execute_tool env name request) = Inr r \<and> \<not> success r \<and>
       tool_name r = Text name \<and>
       (\<forall>kw. json_loads env (text' resp) = Inr (JObject kw) \<longrightarrow>
          error r = Some (prepend ''Tool Warehouse error: ''
                            (case map_of kw (Text ''detail'') of
                               None \<Rightarrow> Text (text' resp)
                             | Some d \<Rightarrow> fstring env d)))"
proof -
  assume a: "warehouse env (execute_call env name request) = Inr resp"
    "status_code resp \<noteq> 200"
  show ?thesis
  proof (cases "json_loads env (text' resp)")
    case (Inl m)
    with a show ?thesis by (simp add: execute_tool_not_json)
  next
    case (Inr j)
    show ?thesis
    proof (cases "\<exists>kw. j = JObject kw")
      case True
      with a Inr show ?thesis by (auto simp: execute_tool_non_200_object)
    next
      case False
      with a Inr show ?thesis by (simp add: execute_tool_non_200_other)
    qed
  qed
qed

theorem execute_non_200_witness:
  \<open>fst (execute_tool
          (example_env (Inr \<lparr>status_code = 404, text' = ''{"detail":"Tool not found"}''\<rparr>))
          ''foo'' no_parameters)
     = Inr \<lparr>success = False, tool_name = Text ''foo'', result = JNull,
            error = Some (Text ''Tool Warehouse error: Tool not found'')\<rparr> \<and>
   fst (execute_tool
          (example_env (Inr \<lparr>status_code = 500, text' = ''{"message":"crashed"}''\<rparr>))
          ''foo'' no_parameters)
     = Inr \<lparr>success = False, tool_name = Text ''foo'', result = JNull,
            error = Some (Text ''Tool Warehouse error: {"message":"crashed"}'')\<rparr>\<close>
  using execute_non_200
          [of \<open>example_env (Inr \<lparr>status_code = 404,
                                text' = ''{"detail":"Tool not found"}''\<rparr>)\<close>
              "''foo''" no_parameters
              \<open>\<lparr>status_code = 404, text' = ''{"detail":"Tool not found"}''\<rparr>\<close>]
        execute_non_200
          [of \<open>example_env (Inr \<lparr>status_code = 500, text' = ''{"message":"crashed"}''\<rparr>)\<close>
              "''foo''" no_parameters
              \<open>\<lparr>status_code = 500, text' = ''{"message":"crashed"}''\<rparr>\<close>]
  by (auto simp: example_env_sel example_loads_simps fstring_def jdict_def jstr_def
        execute_tool_non_200_object)

text \<open>
  C5 as stated fails on a body that is not JSON: \<^verbatim>\<open>response.json()\<close> raises before
  the default of \<^verbatim>\<open>.get("detail", response.text)\<close> is reached, and the error is the
  decoder's message, which does not contain the raw body text.
\<close>

theorem execute_non_200_not_json_counterexample:
  "json_loads (example_env (Inr \<lparr>status_code = 502, text' = ''Bad Gateway''\<rparr>)) ''Bad Gateway''
     = Inl ''Expecting value: line 1 column 1 (char 0)'' \<and>
   fst (execute_tool (example_env (Inr \<lparr>status_code = 502, text' = ''Bad Gateway''\<rparr>))
          ''foo'' no_parameters)
     = Inr \<lparr>success = False, tool_name = Text ''foo'', result = JNull,
            error = Some (Text
              ''Meta-Layer error: Expecting value: line 1 column 1 (char 0)'')\<rparr> \<and>
   \<not> sublist ''Bad Gateway'' ''Meta-Layer error: Expecting value: line 1 column 1 (char 0)''"
proof -
  have "\<not> sublist ''Bad Gateway''
          ''Meta-Layer error: Expecting value: line 1 column 1 (char 0)''"
    by code_simp
  moreover have
    "fst (execute_tool (example_env (Inr \<lparr>status_code = 502, text' = ''Bad Gateway''\<rparr>))
          ''foo'' no_parameters)
     = Inr \<lparr>success = False, tool_name = Text ''foo'', result = JNull,
            error = Some (Text
              ''Meta-Layer error: Expecting value: line 1 column 1 (char 0)'')\<rparr>"
    using execute_tool_not_json
            [of "example_env (Inr \<lparr>status_code = 502, text' = ''Bad Gateway''\<rparr>)" "''foo''"
                no_parameters "\<lparr>status_code = 502, text' = ''Bad Gateway''\<rparr>"
                "''Expecting value: line 1 column 1 (char 0)''"]
    by (simp add: example_env_sel example_loads_simps)
  ultimately show ?thesis
    by (simp add: example_env_sel example_loads_simps)
qed

section \<open>Outbound calls\<close>

text \<open>
  C9. A request to \<^verbatim>\<open>/health\<close>, \<^verbatim>\<open>/tools\<close>, \<^verbatim>\<open>/registry\<close>,
  \<^verbatim>\<open>/execute/{toolName}\<close> or \<^verbatim>\<open>/tools/{toolName}/code\<close> makes exactly one outbound
  call, with a timeout of 5 seconds for \<^verbatim>\<open>/health\<close>, 10 for \<^verbatim>\<open>/tools\<close>,
  \<^verbatim>\<open>/registry\<close> and the tool code, 30 for the execution, whatever the outcome of the
  call; \<^verbatim>\<open>GET /\<close> makes none.
\<close>

theorem one_outbound_call:
  "snd (app env rq) =
     (case rq of
        GET_root \<Rightarrow> []
      | GET_health \<Rightarrow>
          [\<lparr>http_method = GET, url = TOOL_WAREHOUSE_URL env @ ''/health'', json_arg = None,
            timeout = 5\<rparr>]
      | GET_tools \<Rightarrow>
          [\<lparr>http_method = GET, url = TOOL_WAREHOUSE_URL env @ ''/tools'', json_arg = None,
            timeout = 10\<rparr>]
      | GET_registry \<Rightarrow>
          [\<lparr>http_method = GET, url = TOOL_WAREHOUSE_URL env @ ''/tools'', json_arg = None,
            timeout = 10\<rparr>]
      | POST_execute name request \<Rightarrow>
          [\<lparr>http_method = POST, url = TOOL_WAREHOUSE_URL env @ ''/execute/'' @ name,
            json_arg = Some (jdict [(''parameters'', JObject (parameters request))]),
            timeout = 30\<rparr>]
      | GET_tool_code name \<Rightarrow>
          [\<lparr>http_method = GET, url = TOOL_WAREHOUSE_URL env @ ''/tools/'' @ name @ ''/code'',
            json_arg = None, timeout = 10\<rparr>])"
  by (cases rq)
     (simp_all add: app_simps root_def health_check_eq Let_def discover_tools_eq get_registry_def
        execute_tool_calls get_tool_code_eq health_call_def tools_call_def execute_call_def
        code_call_def)

end
